theory Spec2Isabelle
  imports Complex_Main "HOL-Library.Multiset"
begin

section \<open>Conventions\<close>

text \<open>
  The development embeds the two Python files of the repository:
  \<^verbatim>\<open>datasets/oxford_dataset.py\<close> (camera intrinsics of the cropped Oxford images and
  the image path of a frame) and \<^verbatim>\<open>test_simple.py\<close> (the prediction script).

  Python floats are modelled as rationals: every arithmetic step is exact, and the
  rounding of IEEE doubles and of the final conversion to \<^verbatim>\<open>float32\<close> is left out.
  Python integers are \<^typ>\<open>int\<close>, strings are \<^typ>\<open>string\<close>, exceptions are values of
  the type \<open>error\<close> below.
\<close>

datatype error =
    ZeroDivisionError
  | KeyError string
  | IndexError
  | TypeError
  | AssertionError
  | ResnetException int
  | PathException string
  | LoadError string
  | ImageOpenError string
  | EmptyImageError
  | EmptyArrayError

section \<open>Path helpers of the Python library\<close>

text \<open>
  \<^verbatim>\<open>os.path.join(a, *p)\<close> on POSIX: a component that starts with a slash replaces
  what was joined so far; otherwise it is appended, with a slash between unless the
  path so far is empty or already ends with one.
\<close>

definition startswith :: "string \<Rightarrow> string \<Rightarrow> bool" where
  "startswith s pre = (take (length pre) s = pre)"

definition endswith :: "string \<Rightarrow> string \<Rightarrow> bool" where
  "endswith s suf = (length suf \<le> length s \<and> drop (length s - length suf) s = suf)"

fun os_path_join :: "string \<Rightarrow> string list \<Rightarrow> string" where
  "os_path_join path [] = path"
| "os_path_join path (b # p) =
     os_path_join
       (if startswith b ''/'' then b
        else if path = [] \<or> endswith path ''/'' then path @ b
        else path @ ''/'' @ b) p"

section \<open>The Oxford dataset: intrinsics of the cropped image\<close>

type_synonym crop_window = "int \<times> int \<times> int \<times> int"

text \<open>
  The local variables of \<^verbatim>\<open>OXFORDDataset.__init__\<close> (lines 28 to 59) and the matrix
  \<^verbatim>\<open>self.K\<close> it builds. The source fixes the sensor size, the pixel intrinsics and the
  crop area as literals; \<open>init_locals\<close> takes them as arguments, in the order
  width, height, focal lengths, principal point, crop area, and \<open>OXFORDDataset_init\<close>
  below supplies the literals. Division is Python's true division
  (\<^verbatim>\<open>from __future__ import division\<close>).
\<close>

record calibration =
  fx :: rat
  fy :: rat
  crop_width :: int
  crop_height :: int
  crop_ci :: rat
  crop_cj :: rat
  crop_cx :: rat
  crop_cy :: rat
  K :: "rat list list"

definition init_locals ::
  "int \<Rightarrow> int \<Rightarrow> rat \<Rightarrow> rat \<Rightarrow> rat \<Rightarrow> rat \<Rightarrow> crop_window \<Rightarrow> calibration" where
  "init_locals width height fx_px fy_px cx cy crop_area =
     (case crop_area of (a0, a1, a2, a3) \<Rightarrow>
       let fx' = fx_px / of_int width;
           fy' = fy_px / of_int height;
           cw = a2 - a0;
           ch = a3 - a1;
           ci = of_int a3 - (of_int ch / 2);
           cj = of_int a2 - (of_int cw / 2);
           ccx = cx + of_int (cw - 1) / 2 - cj;
           ccy = cy + of_int (ch - 1) / 2 - ci;
           ccx' = ccx / of_int width;
           ccy' = ccy / of_int height
       in \<lparr> fx = fx', fy = fy', crop_width = cw, crop_height = ch,
            crop_ci = ci, crop_cj = cj, crop_cx = ccx', crop_cy = ccy',
            K = [[fx', 0, ccx', 0],
                 [0, fy', ccy', 0],
                 [0, 0, 1, 0],
                 [0, 0, 0, 1]] \<rparr>)"

text \<open>
  With the sensor size as an argument the divisions of lines 31, 33, 53 and 54 can
  fail: Python raises \<^verbatim>\<open>ZeroDivisionError\<close> at the first division by a zero width
  or height.
\<close>

definition compute_cropped_intrinsics ::
  "int \<Rightarrow> int \<Rightarrow> rat \<Rightarrow> rat \<Rightarrow> rat \<Rightarrow> rat \<Rightarrow> crop_window \<Rightarrow> error + calibration" where
  "compute_cropped_intrinsics width height fx_px fy_px cx cy crop_area =
     (if width = 0 then Inl ZeroDivisionError
      else if height = 0 then Inl ZeroDivisionError
      else Inr (init_locals width height fx_px fy_px cx cy crop_area))"

text \<open>
  The dataset object after \<^verbatim>\<open>__init__\<close>: the matrix, the crop area, the side table
  (a dictionary with two entries, kept as an association list) and the image
  extension, which the superclass \<^verbatim>\<open>MonoDataset\<close> sets and which is an argument here.
\<close>

record oxford_dataset =
  ds_K :: "rat list list"
  ds_crop_area :: crop_window
  side_map :: "(string \<times> string) list"
  img_ext :: string

definition oxford_crop_area :: crop_window where
  "oxford_crop_area = (0, 300, 1280, 760)"

definition oxford_locals :: calibration where
  "oxford_locals =
     init_locals 1280 960 (983044006 / 1000000) (983044006 / 1000000)
       (643646973 / 1000000) (493378998 / 1000000) oxford_crop_area"

definition OXFORDDataset_init :: "string \<Rightarrow> oxford_dataset" where
  "OXFORDDataset_init ext =
     \<lparr> ds_K = K oxford_locals,
       ds_crop_area = oxford_crop_area,
       side_map = [(''l'', ''left''), (''r'', ''right'')],
       img_ext = ext \<rparr>"

text \<open>
  \<^verbatim>\<open>OXFORDRAWDataset.get_image_path\<close>: the file name is the frame index followed by
  the extension; the side is looked up in the table (a missing key raises
  \<^verbatim>\<open>KeyError\<close>) and the three parts are joined.
\<close>

definition get_image_path ::
  "oxford_dataset \<Rightarrow> string \<Rightarrow> string \<Rightarrow> string \<Rightarrow> error + string" where
  "get_image_path self folder frame_index side =
     (let f_str = frame_index @ img_ext self in
      case map_of (side_map self) side of
        None \<Rightarrow> Inl (KeyError side)
      | Some side_name \<Rightarrow> Inr (os_path_join folder [side_name, f_str]))"

text \<open>
  The geometric centre of a crop window, the notion the specification compares the
  computed centre with: the midpoint of the two corners.
\<close>

definition geometric_center :: "crop_window \<Rightarrow> rat \<times> rat" where
  "geometric_center crop_area =
     (case crop_area of (a0, a1, a2, a3) \<Rightarrow>
        ((of_int a0 + of_int a2) / 2, (of_int a1 + of_int a3) / 2))"

section \<open>More helpers of the Python library\<close>

text \<open>\<^verbatim>\<open>sub in s\<close> on strings: \<open>sub\<close> occurs in \<open>s\<close> as a contiguous block.\<close>

fun contains :: "string \<Rightarrow> string \<Rightarrow> bool" where
  "contains [] sub = (sub = [])"
| "contains (c # cs) sub = (startswith (c # cs) sub \<or> contains cs sub)"

text \<open>\<^verbatim>\<open>s.split(sep)\<close> with a one-character separator: every separator cuts.\<close>

fun str_split :: "string \<Rightarrow> char \<Rightarrow> string list" where
  "str_split [] sep = [[]]"
| "str_split (c # cs) sep =
     (if c = sep then [] # str_split cs sep
      else (case str_split cs sep of
              [] \<Rightarrow> [[c]]
            | w # ws \<Rightarrow> (c # w) # ws))"

text \<open>\<^verbatim>\<open>s.rfind(c)\<close>: the index of the last occurrence, or -1.\<close>

definition rfind :: "string \<Rightarrow> char \<Rightarrow> int" where
  "rfind s c =
     (if c \<in> set s
      then int (length s) - 1 - int (length (takeWhile (\<lambda>x. x \<noteq> c) (rev s)))
      else - 1)"

text \<open>\<^verbatim>\<open>os.path.basename\<close>: what follows the last slash.\<close>

definition os_path_basename :: "string \<Rightarrow> string" where
  "os_path_basename p = drop (nat (rfind p (CHR ''/'') + 1)) p"

text \<open>
  \<^verbatim>\<open>os.path.splitext\<close>: the extension starts at the last dot of the last component,
  unless that component has nothing but dots before it.
\<close>

definition os_path_splitext :: "string \<Rightarrow> string \<times> string" where
  "os_path_splitext p =
     (let sepIndex = rfind p (CHR ''/'');
          dotIndex = rfind p (CHR ''.'')
      in if dotIndex > sepIndex \<and>
            list_ex (\<lambda>c. c \<noteq> CHR ''.'')
              (take (nat (dotIndex - (sepIndex + 1))) (drop (nat (sepIndex + 1)) p))
         then (take (nat dotIndex) p, drop (nat dotIndex) p)
         else (p, []))"

section \<open>Arrays\<close>

text \<open>
  A disparity or depth map is a two-dimensional array, a list of rows. The NumPy
  reductions work on the flattened array and fail on an empty one.
  \<^verbatim>\<open>np.percentile(a, q)\<close> with its default linear interpolation sorts the values and
  reads the position \<open>q / 100 * (n - 1)\<close>, interpolating between the two neighbours;
  for a whole number \<open>q\<close> the integer part and the fraction of that position are the
  quotient and the remainder of \<open>q * (n - 1)\<close> by 100.
\<close>

type_synonym tensor = "rat list list"

definition np_min :: "tensor \<Rightarrow> rat option" where
  "np_min t = (case concat t of [] \<Rightarrow> None | x # xs \<Rightarrow> Some (fold min xs x))"

definition np_percentile :: "tensor \<Rightarrow> nat \<Rightarrow> rat option" where
  "np_percentile t q =
     (let xs = sort (concat t); n = length xs in
      if n = 0 then None
      else
        let lo = (q * (n - 1)) div 100;
            hi = min (lo + 1) (n - 1);
            frac = of_nat ((q * (n - 1)) mod 100) / 100
        in Some (xs ! lo + (xs ! hi - xs ! lo) * frac))"

definition scale_tensor :: "rat \<Rightarrow> tensor \<Rightarrow> tensor" where
  "scale_tensor k t = map (map (\<lambda>d. k * d)) t"

section \<open>The prediction script\<close>

datatype dataset_kind = KITTI | OXFORD

text \<open>
  The parsed command line. \<^verbatim>\<open>--model_name\<close> is not required, so it can be absent;
  \<^verbatim>\<open>--dataset\<close> is restricted to its two choices by the parser; the crop area has
  the shape of its default, four integers. \<^verbatim>\<open>--ext\<close> and \<^verbatim>\<open>--no_cuda\<close> do not
  change what is modelled and are left out.
\<close>

record args =
  image_path :: string
  model_name :: "string option"
  pred_metric_depth :: bool
  dataset :: dataset_kind
  model :: string
  dataset_run :: string
  use_test_set :: bool
  crop_area :: crop_window
  resnet :: int

text \<open>
  An image is known by the Pillow calls that made it: opened from a file (and
  converted to RGB) with the size the file has, cropped to a box, resized with a
  filter. Sizes are (width, height).
\<close>

datatype resample = NEAREST | BILINEAR | BICUBIC | LANCZOS

datatype image =
    Opened string "nat \<times> nat"
  | Cropped crop_window image
  | Resized "nat \<times> nat" resample image

fun image_size :: "image \<Rightarrow> nat \<times> nat" where
  "image_size (Opened p s) = s"
| "image_size (Cropped (a0, a1, a2, a3) im) = (nat (a2 - a0), nat (a3 - a1))"
| "image_size (Resized s f im) = s"

datatype interp_mode = Nearest | Linear | Bilinear | Bicubic | Trilinear | Area

text \<open>
  What the script takes from outside: the file system, the checkpoint files, the
  network and the functions it imports from modules that are not part of the two
  files (\<^verbatim>\<open>utils.readlines\<close>, \<^verbatim>\<open>layers.disp_to_depth\<close>,
  \<^verbatim>\<open>evaluate_depth.STEREO_SCALE_FACTOR\<close>, \<^verbatim>\<open>torch.nn.functional.interpolate\<close>).
  A file-system query answers for the moment it is asked at. \<open>network\<close> stands
  for lines 209 to 216: tensor conversion, encoder, decoder and the selection of
  the disparity of scale 0. \<open>None\<close> or \<open>False\<close> is a call that raises.
\<close>

record runtime =
  download_model_if_doesnt_exist :: "string \<Rightarrow> bool"
  torch_load_encoder :: "string \<Rightarrow> (nat \<times> nat) option"
  torch_load_decoder :: "string \<Rightarrow> bool"
  outdir_isdir :: "string \<Rightarrow> bool"
  isfile :: "string \<Rightarrow> bool"
  isdir :: "string \<Rightarrow> bool"
  readlines :: "string \<Rightarrow> string list option"
  pil_open :: "string \<Rightarrow> (nat \<times> nat) option"
  network :: "image \<Rightarrow> tensor"
  interpolate :: "tensor \<Rightarrow> nat \<times> nat \<Rightarrow> interp_mode \<Rightarrow> bool \<Rightarrow> tensor"
  disp_to_depth :: "tensor \<Rightarrow> rat \<Rightarrow> rat \<Rightarrow> tensor \<times> tensor"
  STEREO_SCALE_FACTOR :: rat

text \<open>What the script prints and writes, in order.\<close>

datatype message =
    Warning_pred_metric_depth
  | Loading_model_from string
  | Loading_pretrained_encoder
  | Loading_pretrained_decoder
  | Predicting_on nat
  | KITTI_STEREO_SCALE_FACTOR rat
  | OXFORD_STEREO_SCALE_FACTOR rat
  | Processed nat nat string string
  | Done

text \<open>
  The colour image of lines 243 to 247: the normaliser's \<open>vmin\<close> and \<open>vmax\<close>, the
  name of the colour map and the array that is mapped.
\<close>

datatype picture = Colormapped rat rat string tensor

datatype effect =
    Print message
  | MakeDirs string
  | NpSave string tensor
  | ImSave string picture

definition test_files_dir :: string where
  "test_files_dir = ''/home/radice/neuralNetworks/monodepth2/splits''"

definition kitti_path :: string where
  "kitti_path = ''/home/radice/neuralNetworks/results/monodepth2/KITTI/''"

definition oxford_path :: string where
  "oxford_path = ''/home/radice/neuralNetworks/results/monodepth2/OXFORD/''"

text \<open>
  Lines 100 to 133: the checkpoint is fetched, the encoder is chosen by the
  \<^verbatim>\<open>--resnet\<close> value (anything but 18 and 50 raises), the encoder file gives the
  feed size (height, width), the decoder file is loaded.
\<close>

definition load_models :: "runtime \<Rightarrow> args \<Rightarrow> string \<Rightarrow> effect list \<times> (error + nat \<times> nat)" where
  "load_models env a name =
     (if \<not> download_model_if_doesnt_exist env name then ([], Inl (LoadError name))
      else
        let model_path = os_path_join ''models'' [name];
            encoder_path = os_path_join model_path [''encoder.pth''];
            depth_decoder_path = os_path_join model_path [''depth.pth''];
            e1 = [Print (Loading_model_from model_path), Print Loading_pretrained_encoder]
        in if resnet a \<noteq> 18 \<and> resnet a \<noteq> 50 then (e1, Inl (ResnetException (resnet a)))
           else case torch_load_encoder env encoder_path of
                  None \<Rightarrow> (e1, Inl (LoadError encoder_path))
                | Some feed \<Rightarrow>
                    if torch_load_decoder env depth_decoder_path
                    then (e1 @ [Print Loading_pretrained_decoder], Inr feed)
                    else (e1 @ [Print Loading_pretrained_decoder],
                          Inl (LoadError depth_decoder_path)))"

text \<open>Lines 135 to 146: the output directory of the run, created when it is missing.\<close>

definition make_output_directory :: "runtime \<Rightarrow> args \<Rightarrow> effect list \<times> string" where
  "make_output_directory env a =
     (let folder = model a;
          run = dataset_run a;
          output_directory =
            (case dataset a of
               KITTI \<Rightarrow> os_path_join kitti_path [folder, run]
             | OXFORD \<Rightarrow> os_path_join oxford_path [folder, run])
      in (if outdir_isdir env output_directory then [] else [MakeDirs output_directory],
          output_directory))"

text \<open>
  Lines 148 to 187: the input images. A file is taken alone. For a directory the
  paths come from the split file of the data set, and only with
  \<^verbatim>\<open>--use_test_set\<close>. Each line is cut at its blanks; the third field is looked
  up in the side table, the first and second make the folder and the file name.
  The table of the KITTI branch holds integers, which \<^verbatim>\<open>os.path.join\<close> rejects.
\<close>

definition kitti_side_map :: "(string \<times> int) list" where
  "kitti_side_map = [(''2'', 2), (''3'', 3), (''l'', 2), (''r'', 3)]"

definition oxford_side_map :: "(string \<times> string) list" where
  "oxford_side_map = [(''l'', ''left''), (''r'', ''right'')]"

fun kitti_paths :: "string list \<Rightarrow> error + string list" where
  "kitti_paths [] = Inr []"
| "kitti_paths (file # files) =
     (let splitted = str_split file (CHR '' '') in
      if length splitted < 3 then Inl IndexError
      else case map_of kitti_side_map (splitted ! 2) of
             None \<Rightarrow> Inl (KeyError (splitted ! 2))
           | Some n \<Rightarrow> Inl TypeError)"

fun oxford_paths :: "string list \<Rightarrow> error + string list" where
  "oxford_paths [] = Inr []"
| "oxford_paths (file # files) =
     (let splitted = str_split file (CHR '' '') in
      if length splitted < 3 then Inl IndexError
      else case map_of oxford_side_map (splitted ! 2) of
             None \<Rightarrow> Inl (KeyError (splitted ! 2))
           | Some side_name \<Rightarrow>
               (case oxford_paths files of
                  Inl e \<Rightarrow> Inl e
                | Inr paths \<Rightarrow>
                    Inr (os_path_join (splitted ! 0) [side_name, splitted ! 1 @ ''.jpg'']
                         # paths)))"

definition find_paths :: "runtime \<Rightarrow> args \<Rightarrow> error + string list" where
  "find_paths env a =
     (if isfile env (image_path a) then Inr [image_path a]
      else if isdir env (image_path a) then
        (if use_test_set a then
           (case dataset a of
              KITTI \<Rightarrow>
                (let test_file_path =
                       os_path_join test_files_dir [''eigen'', ''test_files.txt''] in
                 case readlines env test_file_path of
                   None \<Rightarrow> Inl (LoadError test_file_path)
                 | Some train_filenames \<Rightarrow> kitti_paths train_filenames)
            | OXFORD \<Rightarrow>
                (let test_file_path =
                       os_path_join test_files_dir [''oxford'', ''test_files.txt''] in
                 case readlines env test_file_path of
                   None \<Rightarrow> Inl (LoadError test_file_path)
                 | Some train_filenames \<Rightarrow> oxford_paths train_filenames))
         else Inr [])
      else Inl (PathException (image_path a)))"

text \<open>Lines 226 to 233: the depth in metres, by the scale factor of the data set.\<close>

definition oxford_baseline :: rat where
  "oxford_baseline = 24 / 100"

definition stereo_scale_factor :: rat where
  "stereo_scale_factor = oxford_baseline / (1 / 10)"

definition metric_depth :: "runtime \<Rightarrow> dataset_kind \<Rightarrow> tensor \<Rightarrow> tensor" where
  "metric_depth env ds dp =
     (case ds of
        KITTI \<Rightarrow> scale_tensor (STEREO_SCALE_FACTOR env) dp
      | OXFORD \<Rightarrow> scale_tensor stereo_scale_factor dp)"

text \<open>
  The local variables of one pass of the loop (lines 200 to 250), for the image at
  \<open>path\<close> whose file has the size \<open>sz\<close>. \<open>npy_array\<close> is the array handed to
  \<^verbatim>\<open>np.save\<close>.
\<close>

record frame =
  input_image :: image
  original_width :: nat
  original_height :: nat
  net_input :: image
  disp :: tensor
  disp_resized :: tensor
  output_name :: string
  scaled_disp :: tensor
  depth :: tensor
  name_dest_npy :: string
  npy_array :: tensor
  name_dest_im :: string

definition frame_locals ::
  "runtime \<Rightarrow> args \<Rightarrow> nat \<times> nat \<Rightarrow> string \<Rightarrow> string \<Rightarrow> nat \<times> nat \<Rightarrow> frame" where
  "frame_locals env a feed output_directory path sz =
     (case feed of (feed_height, feed_width) \<Rightarrow>
      let im0 = Opened path sz;
          im1 = (if dataset a = OXFORD then Cropped (crop_area a) im0 else im0);
          ow = fst (image_size im1);
          oh = snd (image_size im1);
          im2 = Resized (feed_width, feed_height) LANCZOS im1;
          d = network env im2;
          dr = interpolate env d (oh, ow) Bilinear False;
          stem = fst (os_path_splitext (os_path_basename path));
          sd = fst (disp_to_depth env d (1 / 10) 100);
          dp = snd (disp_to_depth env d (1 / 10) 100)
      in \<lparr> input_image = im1, original_width = ow, original_height = oh,
           net_input = im2, disp = d, disp_resized = dr, output_name = stem,
           scaled_disp = sd, depth = dp,
           name_dest_npy =
             (if pred_metric_depth a
              then os_path_join output_directory [stem @ ''_depth.npy'']
              else os_path_join output_directory [stem @ ''_disp.npy'']),
           npy_array =
             (if pred_metric_depth a then metric_depth env (dataset a) dp else sd),
           name_dest_im = os_path_join output_directory [stem @ ''_disp.jpeg''] \<rparr>)"

text \<open>
  Lines 223 to 239: the array is saved under the name the metric flag selects; the
  metric branch prints the scale factor of the data set first.
\<close>

definition save_numpy_file :: "runtime \<Rightarrow> args \<Rightarrow> frame \<Rightarrow> effect list" where
  "save_numpy_file env a f =
     (if pred_metric_depth a
      then [Print (case dataset a of
                     KITTI \<Rightarrow> KITTI_STEREO_SCALE_FACTOR (STEREO_SCALE_FACTOR env)
                   | OXFORD \<Rightarrow> OXFORD_STEREO_SCALE_FACTOR stereo_scale_factor),
            NpSave (name_dest_npy f) (npy_array f)]
      else [NpSave (name_dest_npy f) (npy_array f)])"

text \<open>
  One pass of the loop with what it prints and writes. A path that ends in
  \<^verbatim>\<open>_disp.jpg\<close> is skipped. An image with no pixels (a crop box with no extent) is
  refused by the resizing calls before anything is written. The array is saved
  before the colour image is made; the percentile and the minimum fail on an
  empty array. \<^verbatim>\<open>squeeze\<close> drops every axis of length one, so a disparity of
  one row or one column is left with a single axis and the slice of the colour
  array in line 246, which names three, raises \<^verbatim>\<open>IndexError\<close>.
\<close>

definition predict_frame ::
  "runtime \<Rightarrow> args \<Rightarrow> nat \<times> nat \<Rightarrow> string \<Rightarrow> nat \<Rightarrow> nat \<Rightarrow> string \<Rightarrow> effect list \<times> error option" where
  "predict_frame env a feed output_directory idx n path =
     (if endswith path ''_disp.jpg'' then ([], None)
      else case pil_open env path of
        None \<Rightarrow> ([], Some (ImageOpenError path))
      | Some sz \<Rightarrow>
         (let f = frame_locals env a feed output_directory path sz in
          if original_width f = 0 \<or> original_height f = 0 then ([], Some EmptyImageError)
          else
            (case np_percentile (disp_resized f) 95 of
               None \<Rightarrow> (save_numpy_file env a f, Some EmptyArrayError)
             | Some vmax \<Rightarrow>
                 (case np_min (disp_resized f) of
                    None \<Rightarrow> (save_numpy_file env a f, Some EmptyArrayError)
                  | Some vmin \<Rightarrow>
                      if original_width f = 1 \<or> original_height f = 1
                      then (save_numpy_file env a f, Some IndexError)
                      else
                        (save_numpy_file env a f @
                         [ImSave (name_dest_im f)
                            (Colormapped vmin vmax ''magma'' (disp_resized f)),
                          Print (Processed (idx + 1) n (name_dest_im f) (name_dest_npy f))],
                         None)))))"

text \<open>The loop over the paths: the first failure ends the run.\<close>

fun predict_all ::
  "runtime \<Rightarrow> args \<Rightarrow> nat \<times> nat \<Rightarrow> string \<Rightarrow> nat \<Rightarrow> nat \<Rightarrow> string list \<Rightarrow> effect list \<times> error option" where
  "predict_all env a feed output_directory n idx [] = ([], None)"
| "predict_all env a feed output_directory n idx (path # paths) =
     (case predict_frame env a feed output_directory idx n path of
        (es, Some err) \<Rightarrow> (es, Some err)
      | (es, None) \<Rightarrow>
          (case predict_all env a feed output_directory n (Suc idx) paths of
             (es', r) \<Rightarrow> (es @ es', r)))"

text \<open>
  \<^verbatim>\<open>test_simple\<close>: the assertion on the model name, the warning of lines 96 to 98,
  then loading, the output directory, the paths and the loop. The result is what
  was printed and written, and the exception that ended the run, if any.
\<close>

definition test_simple :: "runtime \<Rightarrow> args \<Rightarrow> effect list \<times> error option" where
  "test_simple env a =
     (case model_name a of
        None \<Rightarrow> ([], Some AssertionError)
      | Some name \<Rightarrow>
          let w = (if pred_metric_depth a \<and> \<not> contains name ''stereo''
                   then [Print Warning_pred_metric_depth] else [])
          in (case load_models env a name of
               (e1, Inl err) \<Rightarrow> (w @ e1, Some err)
             | (e1, Inr feed) \<Rightarrow>
                 (case make_output_directory env a of
                    (e2, output_directory) \<Rightarrow>
                      (case find_paths env a of
                         Inl err \<Rightarrow> (w @ e1 @ e2, Some err)
                       | Inr paths \<Rightarrow>
                           (case predict_all env a feed output_directory (length paths) 0 paths of
                              (e3, Some err) \<Rightarrow>
                                (w @ e1 @ e2 @ [Print (Predicting_on (length paths))] @ e3,
                                 Some err)
                            | (e3, None) \<Rightarrow>
                                (w @ e1 @ e2 @ [Print (Predicting_on (length paths))] @ e3
                                   @ [Print Done],
                                 None))))))"

text \<open>The arrays written by \<^verbatim>\<open>np.save\<close> and the images written, with their names.\<close>

fun npy_saves :: "effect list \<Rightarrow> (string \<times> tensor) list" where
  "npy_saves [] = []"
| "npy_saves (NpSave name t # es) = (name, t) # npy_saves es"
| "npy_saves (e # es) = npy_saves es"

fun image_saves :: "effect list \<Rightarrow> (string \<times> picture) list" where
  "image_saves [] = []"
| "image_saves (ImSave name im # es) = (name, im) # image_saves es"
| "image_saves (e # es) = image_saves es"

section \<open>A runtime and arguments for examples\<close>

text \<open>
  The theorems below hold for every runtime. The examples need one: a stand-in
  network that answers with a fixed two by two disparity, an interpolation that
  repeats every value by the whole-number scale, the disparity conversion as the
  original Monodepth2 has it, two image files (a full frame of 1280 by 960 and a
  tile of 4 by 4), and checkpoints trained at 640 by 192.
\<close>

definition sample_disp_to_depth :: "tensor \<Rightarrow> rat \<Rightarrow> rat \<Rightarrow> tensor \<times> tensor" where
  "sample_disp_to_depth d min_depth max_depth =
     (let min_disp = 1 / max_depth;
          max_disp = 1 / min_depth;
          sd = map (map (\<lambda>x. min_disp + (max_disp - min_disp) * x)) d
      in (sd, map (map (\<lambda>x. 1 / x)) sd))"

definition sample_interpolate :: "tensor \<Rightarrow> nat \<times> nat \<Rightarrow> interp_mode \<Rightarrow> bool \<Rightarrow> tensor" where
  "sample_interpolate t target mode align =
     (case target of (h, w) \<Rightarrow>
        concat (map (\<lambda>row. replicate (h div length t)
                               (concat (map (replicate (w div length row)) row))) t))"

definition sample_runtime :: runtime where
  "sample_runtime =
     \<lparr> download_model_if_doesnt_exist = (\<lambda>name. True),
       torch_load_encoder = (\<lambda>p. Some (192, 640)),
       torch_load_decoder = (\<lambda>p. True),
       outdir_isdir = (\<lambda>p. False),
       isfile = (\<lambda>p. p = ''frames/0001.jpg'' \<or> p = ''frames/tile.jpg''),
       isdir = (\<lambda>p. p = ''frames''),
       readlines = (\<lambda>p. None),
       pil_open = (\<lambda>p. if p = ''frames/0001.jpg'' then Some (1280, 960)
                        else if p = ''frames/tile.jpg'' then Some (4, 4)
                        else None),
       network = (\<lambda>im. [[1 / 10, 2 / 10], [3 / 10, 9 / 10]]),
       interpolate = sample_interpolate,
       disp_to_depth = sample_disp_to_depth,
       STEREO_SCALE_FACTOR = 54 / 10 \<rparr>"

definition sample_args :: args where
  "sample_args =
     \<lparr> image_path = ''frames/0001.jpg'',
       model_name = Some ''oxford_mono_640x192'',
       pred_metric_depth = True,
       dataset = OXFORD,
       model = ''crop-mixedsplit'',
       dataset_run = ''2014-06-26-09-31-18'',
       use_test_set = False,
       crop_area = (0, 240, 1280, 720),
       resnet = 18 \<rparr>"

definition tile_args :: args where
  "tile_args = sample_args \<lparr> image_path := ''frames/tile.jpg'', crop_area := (0, 1, 2, 3) \<rparr>"

definition sample_output_directory :: string where
  "sample_output_directory =
     ''/home/radice/neuralNetworks/results/monodepth2/OXFORD/crop-mixedsplit/2014-06-26-09-31-18''"

text \<open>
  The conditions under which one pass of the loop raises nothing: the path is
  skipped, or the image opens, keeps more than one row and more than one column
  after the crop and the interpolated disparity is not empty.
\<close>

definition frame_ok :: "runtime \<Rightarrow> args \<Rightarrow> nat \<times> nat \<Rightarrow> string \<Rightarrow> string \<Rightarrow> bool" where
  "frame_ok env a feed output_directory path =
     (endswith path ''_disp.jpg'' \<or>
      (case pil_open env path of
         None \<Rightarrow> False
       | Some sz \<Rightarrow>
           1 < original_width (frame_locals env a feed output_directory path sz)
         \<and> 1 < original_height (frame_locals env a feed output_directory path sz)
         \<and> concat (disp_resized (frame_locals env a feed output_directory path sz)) \<noteq> []))"

section \<open>Auxiliary facts\<close>

subsection \<open>Minimum and percentile\<close>


lemma np_min_Some: "concat t \<noteq> [] \<Longrightarrow> \<exists>v. np_min t = Some v"
  by (auto simp: np_min_def split: list.splits)

lemma np_percentile_Some: "concat t \<noteq> [] \<Longrightarrow> \<exists>v. np_percentile t q = Some v"
proof -
  assume "concat t \<noteq> []"
  then have "length (sort (concat t)) \<noteq> 0" by simp
  then show ?thesis unfolding np_percentile_def Let_def by (simp del: length_0_conv)
qed





lemma npy_saves_append: "npy_saves (xs @ ys) = npy_saves xs @ npy_saves ys"
  by (induction xs rule: npy_saves.induct) simp_all

lemma image_saves_append: "image_saves (xs @ ys) = image_saves xs @ image_saves ys"
  by (induction xs rule: image_saves.induct) simp_all

lemma npy_saves_save_numpy_file:
  "npy_saves (save_numpy_file env a f) = [(name_dest_npy f, npy_array f)]"
  by (simp add: save_numpy_file_def)

lemma image_saves_save_numpy_file: "image_saves (save_numpy_file env a f) = []"
  by (simp add: save_numpy_file_def)

lemma predict_frame_skip:
  "endswith path ''_disp.jpg'' \<Longrightarrow> predict_frame env a feed out idx n path = ([], None)"
  by (simp add: predict_frame_def)

lemma predict_frame_opened:
  assumes "\<not> endswith path ''_disp.jpg''" and "pil_open env path = Some sz"
    and "original_width (frame_locals env a feed out path sz) \<noteq> 0"
    and "original_height (frame_locals env a feed out path sz) \<noteq> 0"
  shows "predict_frame env a feed out idx n path =
     (case np_percentile (disp_resized (frame_locals env a feed out path sz)) 95 of
        None \<Rightarrow> (save_numpy_file env a (frame_locals env a feed out path sz), Some EmptyArrayError)
      | Some vmax \<Rightarrow>
          (case np_min (disp_resized (frame_locals env a feed out path sz)) of
             None \<Rightarrow> (save_numpy_file env a (frame_locals env a feed out path sz), Some EmptyArrayError)
           | Some vmin \<Rightarrow>
               if original_width (frame_locals env a feed out path sz) = 1
                  \<or> original_height (frame_locals env a feed out path sz) = 1
               then (save_numpy_file env a (frame_locals env a feed out path sz), Some IndexError)
               else
                 (save_numpy_file env a (frame_locals env a feed out path sz) @
                  [ImSave (name_dest_im (frame_locals env a feed out path sz))
                     (Colormapped vmin vmax ''magma''
                        (disp_resized (frame_locals env a feed out path sz))),
                   Print (Processed (idx + 1) n
                            (name_dest_im (frame_locals env a feed out path sz))
                            (name_dest_npy (frame_locals env a feed out path sz)))],
                  None)))"
  using assms by (simp add: predict_frame_def Let_def)

lemma predict_frame_written:
  assumes skip: "\<not> endswith path ''_disp.jpg''" and op: "pil_open env path = Some sz"
    and run: "predict_frame env a feed out idx n path = (es, None)"
  shows "\<exists>vmin vmax.
           np_percentile (disp_resized (frame_locals env a feed out path sz)) 95 = Some vmax
         \<and> np_min (disp_resized (frame_locals env a feed out path sz)) = Some vmin
         \<and> es = save_numpy_file env a (frame_locals env a feed out path sz) @
                [ImSave (name_dest_im (frame_locals env a feed out path sz))
                   (Colormapped vmin vmax ''magma''
                      (disp_resized (frame_locals env a feed out path sz))),
                 Print (Processed (idx + 1) n
                          (name_dest_im (frame_locals env a feed out path sz))
                          (name_dest_npy (frame_locals env a feed out path sz)))]"
proof -
  let ?f = "frame_locals env a feed out path sz"
  have nz: "original_width ?f \<noteq> 0 \<and> original_height ?f \<noteq> 0"
    using skip op run by (auto simp: predict_frame_def Let_def split: if_splits)
  show ?thesis
    using run predict_frame_opened[OF skip op, of a feed out idx n] nz
    by (auto split: option.splits if_splits)
qed

lemma predict_frame_ok:
  assumes "frame_ok env a feed out path"
  shows "snd (predict_frame env a feed out idx n path) = None"
proof (cases "endswith path ''_disp.jpg''")
  case True
  then show ?thesis by (simp add: predict_frame_skip)
next
  case False
  then obtain sz where op: "pil_open env path = Some sz"
    and w1: "1 < original_width (frame_locals env a feed out path sz)"
    and h1: "1 < original_height (frame_locals env a feed out path sz)"
    and ne: "concat (disp_resized (frame_locals env a feed out path sz)) \<noteq> []"
    using assms by (auto simp: frame_ok_def split: option.splits)
  obtain vmax where "np_percentile (disp_resized (frame_locals env a feed out path sz)) 95 = Some vmax"
    using np_percentile_Some[OF ne] by blast
  moreover obtain vmin where "np_min (disp_resized (frame_locals env a feed out path sz)) = Some vmin"
    using np_min_Some[OF ne] by blast
  moreover have w: "original_width (frame_locals env a feed out path sz) \<noteq> 0"
    and h: "original_height (frame_locals env a feed out path sz) \<noteq> 0"
    using w1 h1 by simp_all
  ultimately show ?thesis
    using predict_frame_opened[OF False op w h, of idx n] w1 h1 by simp
qed

subsection \<open>One pass of the loop and the whole loop\<close>

lemma predict_frame_ok_saves:
  assumes ok: "frame_ok env a feed out path"
  shows "\<exists>es. predict_frame env a feed out idx n path = (es, None)
           \<and> length (npy_saves es) = (if endswith path ''_disp.jpg'' then 0 else 1)
           \<and> length (image_saves es) = (if endswith path ''_disp.jpg'' then 0 else 1)"
proof (cases "endswith path ''_disp.jpg''")
  case True
  then show ?thesis by (simp add: predict_frame_skip)
next
  case False
  obtain es where run: "predict_frame env a feed out idx n path = (es, None)"
    using predict_frame_ok[OF ok, of idx n] by (cases "predict_frame env a feed out idx n path") simp
  obtain sz where op: "pil_open env path = Some sz"
    using ok False by (auto simp: frame_ok_def split: option.splits)
  from predict_frame_written[OF False op run]
  have "length (npy_saves es) = 1 \<and> length (image_saves es) = 1"
    by (auto simp: npy_saves_append image_saves_append npy_saves_save_numpy_file
          image_saves_save_numpy_file)
  then show ?thesis using run False by simp
qed

lemma predict_all_ok:
  assumes "list_all (frame_ok env a feed out) paths"
  shows "\<exists>es. predict_all env a feed out n idx paths = (es, None)
           \<and> length (npy_saves es) = length (filter (\<lambda>p. \<not> endswith p ''_disp.jpg'') paths)
           \<and> length (image_saves es) = length (filter (\<lambda>p. \<not> endswith p ''_disp.jpg'') paths)"
  using assms
proof (induction paths arbitrary: idx)
  case Nil
  then show ?case by simp
next
  case (Cons p ps)
  then have okp: "frame_ok env a feed out p" and okps: "list_all (frame_ok env a feed out) ps"
    by simp_all
  obtain es where 1: "predict_frame env a feed out idx n p = (es, None)"
    and 2: "length (npy_saves es) = (if endswith p ''_disp.jpg'' then 0 else 1)"
    and 3: "length (image_saves es) = (if endswith p ''_disp.jpg'' then 0 else 1)"
    using predict_frame_ok_saves[OF okp, of idx n] by blast
  obtain es' where 4: "predict_all env a feed out n (Suc idx) ps = (es', None)"
    and 5: "length (npy_saves es') = length (filter (\<lambda>p. \<not> endswith p ''_disp.jpg'') ps)"
    and 6: "length (image_saves es') = length (filter (\<lambda>p. \<not> endswith p ''_disp.jpg'') ps)"
    using Cons.IH[OF okps, of "Suc idx"] by blast
  show ?case using 1 2 3 4 5 6 by (simp add: npy_saves_append image_saves_append)
qed

lemma load_models_saves:
  "npy_saves (fst (load_models env a name)) = [] \<and> image_saves (fst (load_models env a name)) = []"
  by (simp add: load_models_def Let_def del: os_path_join.simps split: option.splits)

lemma make_output_directory_saves:
  "npy_saves (fst (make_output_directory env a)) = []
   \<and> image_saves (fst (make_output_directory env a)) = []"
  by (simp add: make_output_directory_def Let_def del: os_path_join.simps)

lemma npy_saves_predict_frame:
  assumes "\<not> endswith path ''_disp.jpg''" and "pil_open env path = Some sz"
    and "original_width (frame_locals env a feed out path sz) \<noteq> 0"
    and "original_height (frame_locals env a feed out path sz) \<noteq> 0"
  shows "npy_saves (fst (predict_frame env a feed out idx n path)) =
           [(name_dest_npy (frame_locals env a feed out path sz),
             npy_array (frame_locals env a feed out path sz))]"
  unfolding predict_frame_opened[OF assms]
  by (simp add: npy_saves_append npy_saves_save_numpy_file split: option.splits if_splits)

lemma frame_locals_interpolate_update:
  "name_dest_npy (frame_locals (env\<lparr>interpolate := g\<rparr>) a feed out path sz)
     = name_dest_npy (frame_locals env a feed out path sz)
   \<and> npy_array (frame_locals (env\<lparr>interpolate := g\<rparr>) a feed out path sz)
     = npy_array (frame_locals env a feed out path sz)
   \<and> original_width (frame_locals (env\<lparr>interpolate := g\<rparr>) a feed out path sz)
     = original_width (frame_locals env a feed out path sz)
   \<and> original_height (frame_locals (env\<lparr>interpolate := g\<rparr>) a feed out path sz)
     = original_height (frame_locals env a feed out path sz)"
  by (cases feed; cases "dataset a")
     (simp_all add: frame_locals_def Let_def metric_depth_def del: os_path_join.simps)

lemma npy_saves_interpolate_update:
  "npy_saves (fst (predict_frame (env\<lparr>interpolate := g\<rparr>) a feed out idx n path))
   = npy_saves (fst (predict_frame env a feed out idx n path))"
proof (cases "endswith path ''_disp.jpg''")
  case True
  then show ?thesis by (simp add: predict_frame_skip)
next
  case skip: False
  show ?thesis
  proof (cases "pil_open env path")
    case None
    then show ?thesis using skip by (simp add: predict_frame_def)
  next
    case (Some sz)
    let ?f = "frame_locals env a feed out path sz"
    let ?env' = "env\<lparr>interpolate := g\<rparr>"
    have op': "pil_open ?env' path = Some sz" using Some by simp
    show ?thesis
    proof (cases "original_width ?f = 0 \<or> original_height ?f = 0")
      case True
      then show ?thesis using skip Some op' frame_locals_interpolate_update[of g env a feed out path sz]
        by (simp add: predict_frame_def Let_def)
    next
      case False
      then have nz: "original_width ?f \<noteq> 0" "original_height ?f \<noteq> 0" by simp_all
      have nz': "original_width (frame_locals ?env' a feed out path sz) \<noteq> 0"
                "original_height (frame_locals ?env' a feed out path sz) \<noteq> 0"
        using nz frame_locals_interpolate_update[of g env a feed out path sz] by simp_all
      show ?thesis
        using npy_saves_predict_frame[OF skip Some nz, of idx n]
              npy_saves_predict_frame[OF skip op' nz', of idx n]
              frame_locals_interpolate_update[of g env a feed out path sz]
        by simp
    qed
  qed
qed

subsection \<open>The example runtime\<close>

lemma tile_frame_nonempty:
  "\<not> endswith ''frames/tile.jpg'' ''_disp.jpg''
   \<and> pil_open sample_runtime ''frames/tile.jpg'' = Some (4, 4)
   \<and> original_width (frame_locals sample_runtime tile_args (192, 640) sample_output_directory ''frames/tile.jpg'' (4, 4)) = 2
   \<and> original_height (frame_locals sample_runtime tile_args (192, 640) sample_output_directory ''frames/tile.jpg'' (4, 4)) = 2"
  by (simp add: endswith_def sample_runtime_def frame_locals_def Let_def tile_args_def sample_args_def)

lemma tile_run:
  "predict_frame sample_runtime tile_args (192, 640) sample_output_directory 0 1 ''frames/tile.jpg''
   = ([Print (OXFORD_STEREO_SCALE_FACTOR (12 / 5)),
       NpSave (sample_output_directory @ ''/tile_depth.npy'')
         [[2400 / 1009, 300 / 251], [2400 / 3007, 2400 / 9001]],
       ImSave (sample_output_directory @ ''/tile_disp.jpeg'')
         (Colormapped (1 / 10) (81 / 100) ''magma'' [[1 / 10, 1 / 5], [3 / 10, 9 / 10]]),
       Print (Processed 1 1 (sample_output_directory @ ''/tile_disp.jpeg'')
                (sample_output_directory @ ''/tile_depth.npy''))], None)"
  by code_simp


lemma tile_load_models:
  "load_models sample_runtime tile_args ''oxford_mono_640x192''
   = ([Print (Loading_model_from ''models/oxford_mono_640x192''),
       Print Loading_pretrained_encoder, Print Loading_pretrained_decoder], Inr (192, 640))"
  by code_simp

lemma tile_find_paths: "find_paths sample_runtime tile_args = Inr [''frames/tile.jpg'']"
  by code_simp

lemma tile_frames_ok:
  "list_all (frame_ok sample_runtime tile_args (192, 640)
     (snd (make_output_directory sample_runtime tile_args))) [''frames/tile.jpg'']"
  by code_simp

lemma tile_warning_conditions:
  "model_name tile_args = Some ''oxford_mono_640x192'' \<and> pred_metric_depth tile_args
   \<and> \<not> contains ''oxford_mono_640x192'' ''stereo''"
  by code_simp

section \<open>The intrinsics of the cropped image\<close>

text \<open>
  C1. The intrinsics follow the stated algorithm. For a sensor size other than zero the
  computation returns the local variables below: the focal lengths are divided by
  the sensor width and height and do not depend on the crop; the crop centre is
  the far corner minus half the extent; the principal point is moved by
  \<open>(extent - 1) / 2\<close> minus that centre and then divided by the sensor size; the
  matrix has the pinhole layout. For the literals of the source (sensor 1280 by
  960, focal length 983.044006, principal point (643.646973, 493.378998), crop
  (0, 300, 1280, 760)) the crop is 1280 by 460, \<open>fx\<close> is 983.044006 / 1280, about
  0.7680, and \<open>fy\<close> is 983.044006 / 960, about 1.0240.
\<close>

theorem init_follows_algorithm:
  "(width \<noteq> 0 \<and> height \<noteq> 0 \<longrightarrow>
      compute_cropped_intrinsics width height fx_px fy_px cx cy (x0, y0, x1, y1) =
        Inr (init_locals width height fx_px fy_px cx cy (x0, y0, x1, y1)))
   \<and> (let c = init_locals width height fx_px fy_px cx cy (x0, y0, x1, y1) in
        fx c = fx_px / of_int width \<and> fy c = fy_px / of_int height
      \<and> crop_width c = x1 - x0 \<and> crop_height c = y1 - y0
      \<and> crop_cj c = of_int x1 - of_int (x1 - x0) / 2
      \<and> crop_ci c = of_int y1 - of_int (y1 - y0) / 2
      \<and> crop_cx c = (cx + (of_int (x1 - x0) - 1) / 2 - crop_cj c) / of_int width
      \<and> crop_cy c = (cy + (of_int (y1 - y0) - 1) / 2 - crop_ci c) / of_int height
      \<and> K c = [[fx c, 0, crop_cx c, 0], [0, fy c, crop_cy c, 0], [0, 0, 1, 0], [0, 0, 0, 1]])
   \<and> oxford_locals =
        init_locals 1280 960 (983044006 / 1000000) (983044006 / 1000000)
          (643646973 / 1000000) (493378998 / 1000000) (0, 300, 1280, 760)
   \<and> crop_width oxford_locals = 1280 \<and> crop_height oxford_locals = 460
   \<and> fx oxford_locals = (983044006 / 1000000) / 1280
   \<and> fy oxford_locals = (983044006 / 1000000) / 960
   \<and> \<bar>fx oxford_locals - 7680 / 10000\<bar> < 1 / 10000
   \<and> \<bar>fy oxford_locals - 10240 / 10000\<bar> < 1 / 10000"
  by (simp add: compute_cropped_intrinsics_def init_locals_def oxford_locals_def
        oxford_crop_area_def Let_def)

theorem init_follows_algorithm_witness:
  "compute_cropped_intrinsics 640 480 500 500 320 240 (10, 20, 330, 260) =
     Inr (init_locals 640 480 500 500 320 240 (10, 20, 330, 260))
   \<and> fx (init_locals 640 480 500 500 320 240 (10, 20, 330, 260)) = 25 / 32
   \<and> crop_width (init_locals 640 480 500 500 320 240 (10, 20, 330, 260)) = 320
   \<and> crop_cj (init_locals 640 480 500 500 320 240 (10, 20, 330, 260)) = 170
   \<and> crop_cx (init_locals 640 480 500 500 320 240 (10, 20, 330, 260)) = 619 / 1280"
  using init_follows_algorithm [of 640 480 500 500 320 240 10 20 330 260]
  by (simp add: Let_def)

text \<open>
  C5. The claim that all four normalised entries lie in the unit interval fails for
  the one configuration the source builds: the focal length in pixels is larger
  than the sensor height, so the entry \<open>fy\<close> of the matrix is above one.
\<close>

theorem intrinsics_unit_interval_cex:
  "ds_K (OXFORDDataset_init ''.jpg'') ! 1 ! 1 = 983044006 / 960000000
   \<and> \<not> ds_K (OXFORDDataset_init ''.jpg'') ! 1 ! 1 \<le> 1"
  by (simp add: OXFORDDataset_init_def oxford_locals_def init_locals_def oxford_crop_area_def
        Let_def)

text \<open>
  C5, as amended. For the configuration the source builds, and every image extension, the
  matrix holds \<open>fx\<close>, \<open>fy\<close> and the adjusted principal point; \<open>fx\<close> and both
  coordinates of the principal point lie in the unit interval, and \<open>fy\<close> lies
  above one, at most 1.025.
\<close>

theorem intrinsics_ranges:
  "ds_K (OXFORDDataset_init ext) =
     [[fx oxford_locals, 0, crop_cx oxford_locals, 0],
      [0, fy oxford_locals, crop_cy oxford_locals, 0],
      [0, 0, 1, 0],
      [0, 0, 0, 1]]
   \<and> 0 \<le> fx oxford_locals \<and> fx oxford_locals \<le> 1
   \<and> 1 < fy oxford_locals \<and> fy oxford_locals \<le> 1025 / 1000
   \<and> 0 \<le> crop_cx oxford_locals \<and> crop_cx oxford_locals \<le> 1
   \<and> 0 \<le> crop_cy oxford_locals \<and> crop_cy oxford_locals \<le> 1"
  by (simp add: OXFORDDataset_init_def oxford_locals_def init_locals_def oxford_crop_area_def
        Let_def)

text \<open>
  C6. The claim that the computed crop centre is the geometric centre only for a
  window that starts at the origin fails: the window of the source starts at row
  300 and its computed centre (640, 530) is its geometric centre.
\<close>

theorem crop_center_only_at_origin_cex:
  "(crop_cj oxford_locals, crop_ci oxford_locals) = geometric_center oxford_crop_area
   \<and> (crop_cj oxford_locals, crop_ci oxford_locals) = (640, 530)
   \<and> oxford_crop_area = (0, 300, 1280, 760) \<and> (300 :: int) \<noteq> 0"
  by (simp add: init_locals_def oxford_locals_def oxford_crop_area_def geometric_center_def
        Let_def)

text \<open>
  C6, as amended. For every crop window, and whatever the other arguments are, the centre the
  source computes, the far corner minus half the extent, is the geometric centre
  of the window.
\<close>

theorem crop_center_is_geometric_center:
  "(crop_cj (init_locals width height fx_px fy_px cx cy win),
    crop_ci (init_locals width height fx_px fy_px cx cy win)) = geometric_center win"
  by (cases win) (simp add: init_locals_def geometric_center_def Let_def field_simps)

section \<open>The image path of a frame\<close>

text \<open>
  C8. On the dataset object the constructor builds, the side \<open>l\<close> resolves to the
  join of the folder, \<open>left\<close> and the frame index followed by the extension, the
  side \<open>r\<close> to the same with \<open>right\<close>, and every other side token fails with
  the exception of the missing key (Python's \<open>KeyError\<close>, the unknown-side error of
  the specification). For a folder that is not empty and does not end with a
  slash, and a file name that does not start with one, the join is the plain
  concatenation with slashes.
\<close>

theorem get_image_path_resolves:
  "get_image_path (OXFORDDataset_init ext) folder idx ''l''
     = Inr (os_path_join folder [''left'', idx @ ext])
   \<and> get_image_path (OXFORDDataset_init ext) folder idx ''r''
     = Inr (os_path_join folder [''right'', idx @ ext])
   \<and> (side \<noteq> ''l'' \<and> side \<noteq> ''r'' \<longrightarrow>
        get_image_path (OXFORDDataset_init ext) folder idx side = Inl (KeyError side))
   \<and> (folder \<noteq> [] \<and> \<not> endswith folder ''/'' \<and> \<not> startswith (idx @ ext) ''/'' \<longrightarrow>
        os_path_join folder [''left'', idx @ ext] = folder @ ''/left/'' @ idx @ ext
      \<and> os_path_join folder [''right'', idx @ ext] = folder @ ''/right/'' @ idx @ ext)"
  by (simp add: get_image_path_def OXFORDDataset_init_def startswith_def endswith_def)

theorem get_image_path_resolves_witness:
  "get_image_path (OXFORDDataset_init ''.png'') ''2014-06-26-09-31-18'' ''1403774724292807'' ''l''
     = Inr ''2014-06-26-09-31-18/left/1403774724292807.png''
   \<and> get_image_path (OXFORDDataset_init ''.png'') ''2014-06-26-09-31-18'' ''1403774724292807'' ''c''
     = Inl (KeyError ''c'')"
  using get_image_path_resolves
          [of "''.png''" "''2014-06-26-09-31-18''" "''1403774724292807''" "''c''"]
  by (simp add: startswith_def endswith_def)

section \<open>The prediction script\<close>

text \<open>
  C2. The metric depth of the Oxford data set is the depth times
  \<open>oxford_baseline / 0.1\<close> with a baseline of 0.24, that is every value times 2.4;
  a depth of 10 becomes 24; this is the array the loop saves when metric depth is
  asked for on Oxford data.
\<close>

theorem oxford_metric_scaling:
  "metric_depth env OXFORD dp = map (map (\<lambda>d. d * (24 / 10))) dp
   \<and> stereo_scale_factor = oxford_baseline / (1 / 10) \<and> oxford_baseline = 24 / 100
   \<and> metric_depth env OXFORD [[10]] = [[24]]
   \<and> npy_array (frame_locals env (a\<lparr>pred_metric_depth := True, dataset := OXFORD\<rparr>) feed out path sz)
       = map (map (\<lambda>d. d * (24 / 10)))
           (depth (frame_locals env (a\<lparr>pred_metric_depth := True, dataset := OXFORD\<rparr>) feed out path sz))"
  by (cases feed)
     (simp add: metric_depth_def scale_tensor_def stereo_scale_factor_def oxford_baseline_def
        frame_locals_def Let_def mult.commute)

text \<open>
  C3. The claim that the disparity is interpolated back to the resolution of the
  original image fails when the image is cropped: for a file of 1280 by 960 and
  the default crop area the target of the interpolation is 480 rows by 1280
  columns, the size of the cropped image, not 960 by 1280.
\<close>

theorem interpolation_target_cex:
  "pil_open sample_runtime ''frames/0001.jpg'' = Some (1280, 960)
   \<and> dataset sample_args = OXFORD \<and> crop_area sample_args = (0, 240, 1280, 720)
   \<and> input_image (frame_locals sample_runtime sample_args (192, 640) sample_output_directory
        ''frames/0001.jpg'' (1280, 960)) = Cropped (0, 240, 1280, 720) (Opened ''frames/0001.jpg'' (1280, 960))
   \<and> disp_resized (frame_locals sample_runtime sample_args (192, 640) sample_output_directory
        ''frames/0001.jpg'' (1280, 960))
      = interpolate sample_runtime
          (disp (frame_locals sample_runtime sample_args (192, 640) sample_output_directory
             ''frames/0001.jpg'' (1280, 960)))
          (480, 1280) Bilinear False
   \<and> (480, 1280) \<noteq> (960 :: nat, 1280 :: nat)"
  by (simp add: frame_locals_def Let_def sample_args_def) (simp add: sample_runtime_def)

text \<open>
  C3, as amended. In every pass of the loop the image is cropped exactly when the data set is
  Oxford, with the crop area in the pixel coordinates of the opened file, and the
  crop comes before the resize to the feed resolution with the Lanczos filter; the
  network runs on the resized image; its disparity is interpolated, bilinear and
  with \<open>align_corners\<close> disabled, to the size the image has after the crop, the
  extent of the crop area, which is the size of the file when nothing is cropped.
\<close>

theorem crop_then_resize_then_interpolate:
  "(let f = frame_locals env a (feed_height, feed_width) out path sz in
      (dataset a = OXFORD \<longrightarrow>
         input_image f = Cropped (crop_area a) (Opened path sz)
       \<and> (case crop_area a of (x0, y0, x1, y1) \<Rightarrow>
            original_width f = nat (x1 - x0) \<and> original_height f = nat (y1 - y0)))
    \<and> (dataset a = KITTI \<longrightarrow>
         input_image f = Opened path sz \<and> (original_width f, original_height f) = sz)
    \<and> (original_width f, original_height f) = image_size (input_image f)
    \<and> net_input f = Resized (feed_width, feed_height) LANCZOS (input_image f)
    \<and> disp f = network env (net_input f)
    \<and> disp_resized f =
         interpolate env (disp f) (original_height f, original_width f) Bilinear False)"
  by (cases "crop_area a"; cases "dataset a") (simp_all add: frame_locals_def Let_def)

theorem crop_then_resize_then_interpolate_witness:
  "input_image (frame_locals sample_runtime tile_args (192, 640) sample_output_directory ''frames/tile.jpg'' (4, 4))
     = Cropped (0, 1, 2, 3) (Opened ''frames/tile.jpg'' (4, 4))
   \<and> original_width (frame_locals sample_runtime tile_args (192, 640) sample_output_directory ''frames/tile.jpg'' (4, 4)) = 2
   \<and> original_height (frame_locals sample_runtime tile_args (192, 640) sample_output_directory ''frames/tile.jpg'' (4, 4)) = 2
   \<and> input_image (frame_locals sample_runtime (tile_args\<lparr>dataset := KITTI\<rparr>) (192, 640)
        sample_output_directory ''frames/tile.jpg'' (4, 4)) = Opened ''frames/tile.jpg'' (4, 4)"
  using crop_then_resize_then_interpolate
          [of sample_runtime tile_args 192 640 sample_output_directory "''frames/tile.jpg''" "(4, 4)"]
        crop_then_resize_then_interpolate
          [of sample_runtime "tile_args\<lparr>dataset := KITTI\<rparr>" 192 640 sample_output_directory
              "''frames/tile.jpg''" "(4, 4)"]
  by (simp add: Let_def tile_args_def sample_args_def)

text \<open>
  C7. For every frame that is opened and keeps some pixels, exactly one array is
  saved: with the metric flag under the name of the stem followed by
  \<open>_depth.npy\<close>, holding the metric depth, and without it under the stem followed
  by \<open>_disp.npy\<close>, holding the scaled disparity as the conversion returns it.
\<close>

theorem npy_file_by_metric_flag:
  assumes "\<not> endswith path ''_disp.jpg''" and "pil_open env path = Some sz"
    and "original_width (frame_locals env a feed out path sz) \<noteq> 0"
    and "original_height (frame_locals env a feed out path sz) \<noteq> 0"
  shows "npy_saves (fst (predict_frame env a feed out idx n path)) =
     [if pred_metric_depth a
      then (os_path_join out [fst (os_path_splitext (os_path_basename path)) @ ''_depth.npy''],
            metric_depth env (dataset a)
              (snd (disp_to_depth env (disp (frame_locals env a feed out path sz)) (1 / 10) 100)))
      else (os_path_join out [fst (os_path_splitext (os_path_basename path)) @ ''_disp.npy''],
            fst (disp_to_depth env (disp (frame_locals env a feed out path sz)) (1 / 10) 100))]"
proof -
  let ?f = "frame_locals env a feed out path sz"
  have "npy_saves (fst (predict_frame env a feed out idx n path)) = [(name_dest_npy ?f, npy_array ?f)]"
    by (rule npy_saves_predict_frame[OF assms])
  moreover have "(name_dest_npy ?f, npy_array ?f) =
     (if pred_metric_depth a
      then (os_path_join out [fst (os_path_splitext (os_path_basename path)) @ ''_depth.npy''],
            metric_depth env (dataset a) (snd (disp_to_depth env (disp ?f) (1 / 10) 100)))
      else (os_path_join out [fst (os_path_splitext (os_path_basename path)) @ ''_disp.npy''],
            fst (disp_to_depth env (disp ?f) (1 / 10) 100)))"
    by (cases feed) (simp add: frame_locals_def Let_def del: os_path_join.simps)
  ultimately show ?thesis by simp
qed

theorem npy_file_by_metric_flag_witness:
  "npy_saves (fst (predict_frame sample_runtime tile_args (192, 640) sample_output_directory 0 1 ''frames/tile.jpg''))
   = [(sample_output_directory @ ''/tile_depth.npy'',
       [[2400 / 1009, 300 / 251], [2400 / 3007, 2400 / 9001]])]"
proof -
  have "disp (frame_locals sample_runtime tile_args (192, 640) sample_output_directory ''frames/tile.jpg'' (4, 4))
        = [[1 / 10, 2 / 10], [3 / 10, 9 / 10]]"
    by (simp add: frame_locals_def Let_def sample_runtime_def)
  moreover have "pred_metric_depth tile_args \<and> dataset tile_args = OXFORD"
    by (simp add: tile_args_def sample_args_def)
  moreover have "disp_to_depth sample_runtime = sample_disp_to_depth"
    by (simp add: sample_runtime_def)
  moreover have "fst (os_path_splitext (os_path_basename ''frames/tile.jpg'')) = ''tile''"
    by (simp add: os_path_basename_def os_path_splitext_def rfind_def Let_def)
  moreover have "os_path_join sample_output_directory [''tile_depth.npy'']
                 = sample_output_directory @ ''/tile_depth.npy''"
    by (simp add: sample_output_directory_def startswith_def endswith_def)
  ultimately show ?thesis
    using npy_file_by_metric_flag[of "''frames/tile.jpg''" sample_runtime "(4, 4)" tile_args
            "(192, 640)" sample_output_directory 0 1] tile_frame_nonempty
    by (simp add: metric_depth_def scale_tensor_def stereo_scale_factor_def oxford_baseline_def
          sample_disp_to_depth_def Let_def)
qed



text \<open>
  C10. The array that is saved does not depend on the interpolation: replacing the
  interpolation function changes no saved array. It is computed from the
  disparity the network gives for the image resized to the feed resolution, and
  only the colour image holds the disparity interpolated to the size of the input
  image.
\<close>

theorem npy_array_from_feed_resolution_disp:
  "npy_saves (fst (predict_frame (env\<lparr>interpolate := g\<rparr>) a (feed_height, feed_width) out idx n path))
     = npy_saves (fst (predict_frame env a (feed_height, feed_width) out idx n path))
   \<and> (let f = frame_locals env a (feed_height, feed_width) out path sz in
        image_size (net_input f) = (feed_width, feed_height)
      \<and> disp f = network env (net_input f)
      \<and> npy_array f =
          (if pred_metric_depth a
           then metric_depth env (dataset a) (snd (disp_to_depth env (disp f) (1 / 10) 100))
           else fst (disp_to_depth env (disp f) (1 / 10) 100))
      \<and> disp_resized f =
          interpolate env (disp f) (original_height f, original_width f) Bilinear False
      \<and> (\<not> endswith path ''_disp.jpg'' \<and> pil_open env path = Some sz
           \<and> predict_frame env a (feed_height, feed_width) out idx n path = (es, None) \<longrightarrow>
          npy_saves es = [(name_dest_npy f, npy_array f)]
        \<and> (\<exists>vmin vmax. image_saves es =
              [(name_dest_im f, Colormapped vmin vmax ''magma'' (disp_resized f))])))"
proof -
  let ?f = "frame_locals env a (feed_height, feed_width) out path sz"
  have 1: "image_size (net_input ?f) = (feed_width, feed_height)
      \<and> disp ?f = network env (net_input ?f)
      \<and> npy_array ?f =
          (if pred_metric_depth a
           then metric_depth env (dataset a) (snd (disp_to_depth env (disp ?f) (1 / 10) 100))
           else fst (disp_to_depth env (disp ?f) (1 / 10) 100))
      \<and> disp_resized ?f =
          interpolate env (disp ?f) (original_height ?f, original_width ?f) Bilinear False"
    by (simp add: frame_locals_def Let_def del: os_path_join.simps)
  have 2: "npy_saves es = [(name_dest_npy ?f, npy_array ?f)]
        \<and> (\<exists>vmin vmax. image_saves es =
              [(name_dest_im ?f, Colormapped vmin vmax ''magma'' (disp_resized ?f))])"
    if h: "\<not> endswith path ''_disp.jpg'' \<and> pil_open env path = Some sz
           \<and> predict_frame env a (feed_height, feed_width) out idx n path = (es, None)"
  proof -
    obtain vmin vmax where
      es: "es = save_numpy_file env a ?f @
                [ImSave (name_dest_im ?f) (Colormapped vmin vmax ''magma'' (disp_resized ?f)),
                 Print (Processed (idx + 1) n (name_dest_im ?f) (name_dest_npy ?f))]"
      using predict_frame_written[OF conjunct1[OF h] conjunct1[OF conjunct2[OF h]]
              conjunct2[OF conjunct2[OF h]]]
      by blast
    show ?thesis
      by (simp add: es npy_saves_append image_saves_append npy_saves_save_numpy_file
            image_saves_save_numpy_file)
  qed
  show ?thesis
    unfolding Let_def using npy_saves_interpolate_update 1 2 by blast
qed

theorem npy_array_from_feed_resolution_disp_witness:
  "npy_saves (fst (predict_frame (sample_runtime\<lparr>interpolate := (\<lambda>t s m b. t)\<rparr>) tile_args (192, 640)
      sample_output_directory 0 1 ''frames/tile.jpg''))
   = [(name_dest_npy (frame_locals sample_runtime tile_args (192, 640) sample_output_directory ''frames/tile.jpg'' (4, 4)),
       npy_array (frame_locals sample_runtime tile_args (192, 640) sample_output_directory ''frames/tile.jpg'' (4, 4)))]
   \<and> image_size (net_input (frame_locals sample_runtime tile_args (192, 640) sample_output_directory
        ''frames/tile.jpg'' (4, 4))) = (640, 192)"
proof -
  have skip: "\<not> endswith ''frames/tile.jpg'' ''_disp.jpg''"
    and op: "pil_open sample_runtime ''frames/tile.jpg'' = Some (4, 4)"
    using tile_frame_nonempty by simp_all
  show ?thesis
    using npy_array_from_feed_resolution_disp
            [where env = sample_runtime and g = "\<lambda>t s m b. t" and a = tile_args
               and feed_height = 192 and feed_width = 640 and out = sample_output_directory
               and idx = 0 and n = 1 and path = "''frames/tile.jpg''" and sz = "(4, 4)"
               and es = "fst (predict_frame sample_runtime tile_args (192, 640)
                                sample_output_directory 0 1 ''frames/tile.jpg'')"]
          skip op tile_run
    by (simp add: Let_def)
qed

text \<open>
  C9. When metric depth is asked for and the model name does not contain
  \<open>stereo\<close>, the warning is the first thing printed, and the run goes on: if the
  models load, the paths are found and no frame fails, the run ends without an
  exception, prints its last line, and has saved one array and one image for
  every path that is not skipped.
\<close>

theorem warning_is_not_fatal:
  assumes name: "model_name a = Some name" and metric: "pred_metric_depth a"
    and mono: "\<not> contains name ''stereo''"
  shows "(\<exists>es. fst (test_simple env a) = Print Warning_pred_metric_depth # es)
       \<and> (load_models env a name = (e1, Inr feed) \<and> find_paths env a = Inr paths
            \<and> list_all (frame_ok env a feed (snd (make_output_directory env a))) paths \<longrightarrow>
          snd (test_simple env a) = None
        \<and> last (fst (test_simple env a)) = Print Done
        \<and> length (npy_saves (fst (test_simple env a)))
            = length (filter (\<lambda>p. \<not> endswith p ''_disp.jpg'') paths)
        \<and> length (image_saves (fst (test_simple env a)))
            = length (filter (\<lambda>p. \<not> endswith p ''_disp.jpg'') paths))"
proof (intro conjI impI)
  obtain l r where lm: "load_models env a name = (l, r)"
    by (cases "load_models env a name")
  obtain d o' where mk': "make_output_directory env a = (d, o')"
    by (cases "make_output_directory env a")
  show "\<exists>es. fst (test_simple env a) = Print Warning_pred_metric_depth # es"
  proof (cases r)
    case (Inl err)
    then show ?thesis using name metric mono lm by (simp add: test_simple_def del: os_path_join.simps)
  next
    case (Inr fd)
    show ?thesis
    proof (cases "find_paths env a")
      case (Inl err)
      then show ?thesis using name metric mono lm Inr mk' by (simp add: test_simple_def del: os_path_join.simps)
    next
      case ps: (Inr ps)
      obtain e3 r3 where pa: "predict_all env a fd o' (length ps) 0 ps = (e3, r3)"
        by (cases "predict_all env a fd o' (length ps) 0 ps")
      show ?thesis using name metric mono lm Inr mk' ps pa
        by (cases r3) (simp_all add: test_simple_def del: os_path_join.simps)
    qed
  qed
next
  assume h: "load_models env a name = (e1, Inr feed) \<and> find_paths env a = Inr paths
            \<and> list_all (frame_ok env a feed (snd (make_output_directory env a))) paths"
  obtain e2 out where mk: "make_output_directory env a = (e2, out)"
    by (cases "make_output_directory env a")
  obtain e3 where run: "predict_all env a feed out (length paths) 0 paths = (e3, None)"
    and c1: "length (npy_saves e3) = length (filter (\<lambda>p. \<not> endswith p ''_disp.jpg'') paths)"
    and c2: "length (image_saves e3) = length (filter (\<lambda>p. \<not> endswith p ''_disp.jpg'') paths)"
    using predict_all_ok[of env a feed out paths "length paths" 0] h mk by auto
  have ts: "test_simple env a =
          ([Print Warning_pred_metric_depth] @ e1 @ e2 @ [Print (Predicting_on (length paths))]
             @ e3 @ [Print Done], None)"
    using name metric mono h mk run by (simp add: test_simple_def del: os_path_join.simps)
  have s1: "npy_saves e1 = [] \<and> image_saves e1 = []"
    using load_models_saves[of env a name] h by simp
  have s2: "npy_saves e2 = [] \<and> image_saves e2 = []"
    using make_output_directory_saves[of env a] mk by simp
  show "snd (test_simple env a) = None" by (simp add: ts)
  show "last (fst (test_simple env a)) = Print Done" by (simp add: ts)
  show "length (npy_saves (fst (test_simple env a)))
            = length (filter (\<lambda>p. \<not> endswith p ''_disp.jpg'') paths)"
    using s1 s2 c1 by (simp add: ts npy_saves_append)
  show "length (image_saves (fst (test_simple env a)))
            = length (filter (\<lambda>p. \<not> endswith p ''_disp.jpg'') paths)"
    using s1 s2 c2 by (simp add: ts image_saves_append)
qed

theorem warning_is_not_fatal_witness:
  "(\<exists>es. fst (test_simple sample_runtime tile_args) = Print Warning_pred_metric_depth # es)
   \<and> snd (test_simple sample_runtime tile_args) = None
   \<and> last (fst (test_simple sample_runtime tile_args)) = Print Done
   \<and> length (npy_saves (fst (test_simple sample_runtime tile_args))) = 1
   \<and> length (image_saves (fst (test_simple sample_runtime tile_args))) = 1"
  using warning_is_not_fatal
          [OF conjunct1[OF tile_warning_conditions]
              conjunct1[OF conjunct2[OF tile_warning_conditions]]
              conjunct2[OF conjunct2[OF tile_warning_conditions]],
           of sample_runtime _ "(192, 640)" "[''frames/tile.jpg'']"]
        tile_load_models tile_find_paths tile_frames_ok
  by (simp add: endswith_def)

end
